theory Spec2Isabelle
  imports Main
begin

section \<open>Data model\<close>

text \<open>
  The migration manager hook (\<^verbatim>\<open>useMigrationManager\<close>) and the dashboard controller
  (\<^verbatim>\<open>Dashboard\<close>) are embedded as functions over an explicit state. JSON values of
  TypeScript type \<^verbatim>\<open>any\<close> are kept as their serialised text; an optional field holds
  \<open>None\<close> where the JavaScript value is \<^verbatim>\<open>undefined\<close>. Timestamps are milliseconds
  since the epoch, the unit of \<^verbatim>\<open>Date.now()\<close>.

  \<^verbatim>\<open>useState\<close> gives each render the value of the state cell at that render, and the
  callbacks of a render close over that value: \<^verbatim>\<open>setCurrentMigrationId\<close> writes the
  cell, which only the callbacks of a later render see. The cell is the field
  \<open>currentMigrationId\<close> of the state; the value a callback closed over is its argument
  \<open>captured\<close>, so that a callback called twice is the function applied twice to the same
  \<open>captured\<close>, and the callback of the render that shows a state \<open>w\<close> has
  \<open>captured = currentMigrationId w\<close>.
\<close>

type_synonym json = string

datatype file_type = Table | Procedure | Trigger | Other

datatype conversion_status_t = Pending | Success | Failed | Deployed

fun status_text :: "conversion_status_t \<Rightarrow> string" where
  "status_text Pending = ''pending''"
| "status_text Success = ''success''"
| "status_text Failed = ''failed''"
| "status_text Deployed = ''deployed''"

text \<open>The interface \<^verbatim>\<open>FileItem\<close>; the field \<^verbatim>\<open>id\<close> is \<open>fid\<close>, \<^verbatim>\<open>type\<close> is \<open>ftype\<close>.\<close>

record FileItem =
  fid :: string
  name :: string
  path :: string
  ftype :: file_type
  content :: string
  conversionStatus :: conversion_status_t
  convertedContent :: "string option"
  errorMessage :: "string option"
  dataTypeMapping :: "json list option"
  issues :: "json list option"
  performanceMetrics :: "json option"

text \<open>Rows of the backend tables \<^verbatim>\<open>migrations\<close> and \<^verbatim>\<open>migration_files\<close>.\<close>

record migration_row =
  m_id :: string
  m_user_id :: string
  m_project_name :: string
  m_created_at :: int

record file_row =
  mf_id :: string
  mf_migration_id :: string
  file_name :: string
  file_path :: string
  file_type :: file_type
  original_content :: string
  conversion_status :: string
  converted_content :: "string option"
  error_message :: "string option"
  data_type_mapping :: "json option"
  performance_metrics :: "json option"
  mf_issues :: "json option"
  mf_updated_at :: "int option"

text \<open>The object passed to \<^verbatim>\<open>.update(updateData)\<close>: an absent key is \<open>None\<close>.\<close>

record update_data =
  u_conversion_status :: string
  u_updated_at :: int
  u_converted_content :: "string option"
  u_error_message :: "string option"
  u_data_type_mapping :: "json option"
  u_performance_metrics :: "json option"
  u_issues :: "json option"

text \<open>
  Every request sent to the backend is recorded, in order, whether it is answered with
  data, with an error, or not at all.
\<close>

datatype request =
    InsertMigration string string
  | SelectRecentMigration "string option" int
  | DeleteMigrationById string
  | SelectFileNames string
  | InsertFile string string string file_type string string
  | UpdateFile string update_data
  | SelectOldMigrations "string option" int
  | DeleteMigrationsIn "string list"
  | DeleteFilesOf string
  | SelectStatuses string

text \<open>A toast: its title and whether its variant is \<^verbatim>\<open>destructive\<close>.\<close>

datatype toast = Toast string bool

text \<open>
  How the backend answers one awaited request: \<open>Succeeds\<close> is
  \<^verbatim>\<open>{data, error: null}\<close> with the request carried out, \<open>Fails\<close> is
  \<^verbatim>\<open>{data: null, error}\<close> with nothing changed, \<open>Throws\<close> is a rejected promise.
\<close>

datatype outcome = Succeeds | Fails | Throws

text \<open>
  What a call reads from outside the program: the clock, the identifiers the backend
  gives to inserted rows, the outcome of the request at each call site, and the runtime's
  \<^verbatim>\<open>String.prototype.toLowerCase\<close>, which is Unicode-aware and is not fixed here.
\<close>

record env =
  toLowerCase :: "string \<Rightarrow> string"
  now :: int
  local_time :: string
  new_migration_id :: string
  insert_migration :: outcome
  select_recent :: outcome
  delete_recent :: outcome
  select_existing :: outcome
  insert_file :: "nat \<Rightarrow> outcome"
  new_file_id :: "nat \<Rightarrow> string"
  update_file :: outcome
  select_old :: outcome
  delete_old :: outcome
  delete_files :: outcome
  delete_migration :: outcome
  select_statuses :: outcome

text \<open>
  The backend tables, the trace of requests and toasts, and the state of the hook
  (\<^verbatim>\<open>currentMigrationId\<close>, \<^verbatim>\<open>isCreatingMigration\<close>).
\<close>

record world =
  migrations :: "migration_row list"
  migration_files :: "file_row list"
  requests :: "request list"
  toasts :: "toast list"
  currentMigrationId :: "string option"
  isCreatingMigration :: bool

datatype 'a promise = Fulfilled 'a | Rejected

definition send :: "request \<Rightarrow> world \<Rightarrow> world" where
  "send r w = w\<lparr>requests := requests w @ [r]\<rparr>"

definition show_toast :: "string \<Rightarrow> bool \<Rightarrow> world \<Rightarrow> world" where
  "show_toast title destructive w = w\<lparr>toasts := toasts w @ [Toast title destructive]\<rparr>"

text \<open>JavaScript truthiness of a \<^verbatim>\<open>string | null\<close>: null and the empty string are falsy.\<close>

definition truthy :: "string option \<Rightarrow> bool" where
  "truthy v = (case v of None \<Rightarrow> False | Some s \<Rightarrow> s \<noteq> [])"

section \<open>The migration manager\<close>

subsection \<open>startNewMigration\<close>

text \<open>
  The row that \<^verbatim>\<open>insert({user_id, project_name}).select().single()\<close> adds and returns:
  the backend supplies the id and the creation time.
\<close>

definition session_row :: "string \<Rightarrow> string \<Rightarrow> env \<Rightarrow> migration_row" where
  "session_row uid projectName e =
     \<lparr>m_id = new_migration_id e, m_user_id = uid, m_project_name = projectName,
      m_created_at = now e\<rparr>"

definition startNewMigration ::
  "string option \<Rightarrow> string option \<Rightarrow> env \<Rightarrow> world \<Rightarrow> string option \<times> world" where
  "startNewMigration user projectName e w =
     (case user of
        None \<Rightarrow> (None, show_toast ''Authentication Required'' True w)
      | Some uid \<Rightarrow>
          let defaultProjectName =
                (if truthy projectName then the projectName else ''Migration_'' @ local_time e);
              w1 = send (InsertMigration uid defaultProjectName) (w\<lparr>isCreatingMigration := True\<rparr>)
          in (case insert_migration e of
                Succeeds \<Rightarrow>
                  (Some (new_migration_id e),
                   (show_toast ''Migration Started'' False
                      (w1\<lparr>migrations := migrations w1 @ [session_row uid defaultProjectName e],
                          currentMigrationId := Some (new_migration_id e)\<rparr>))
                   \<lparr>isCreatingMigration := False\<rparr>)
              | Fails \<Rightarrow>
                  (None, (show_toast ''Migration Error'' True w1)\<lparr>isCreatingMigration := False\<rparr>)
              | Throws \<Rightarrow>
                  (None, (show_toast ''Migration Error'' True w1)\<lparr>isCreatingMigration := False\<rparr>)))"

subsection \<open>getOrCreateMigrationId\<close>

text \<open>The embedded resource \<^verbatim>\<open>migration_files(id)\<close> of a session.\<close>

definition files_of :: "string \<Rightarrow> world \<Rightarrow> string list" where
  "files_of mid w = map mf_id (filter (\<lambda>f. mf_migration_id f = mid) (migration_files w))"

text \<open>
  \<^verbatim>\<open>.order('created_at', {ascending: false}).limit(1).single()\<close>: the row with the
  greatest \<open>m_created_at\<close> (the first such row of the table where several tie), none when
  no row matches.
\<close>

fun newest :: "migration_row list \<Rightarrow> migration_row option" where
  "newest [] = None"
| "newest (m # ms) =
     (case newest ms of
        None \<Rightarrow> Some m
      | Some m' \<Rightarrow> if m_created_at m < m_created_at m' then Some m' else Some m)"

definition recent_rows :: "string option \<Rightarrow> int \<Rightarrow> world \<Rightarrow> migration_row list" where
  "recent_rows user since w =
     filter (\<lambda>m. Some (m_user_id m) = user \<and> since \<le> m_created_at m) (migrations w)"

definition recent_migration :: "string option \<Rightarrow> int \<Rightarrow> world \<Rightarrow> (string \<times> string list) option" where
  "recent_migration user since w =
     (case newest (recent_rows user since w) of
        None \<Rightarrow> None
      | Some m \<Rightarrow> Some (m_id m, files_of (m_id m) w))"

definition delete_migrations :: "(string \<Rightarrow> bool) \<Rightarrow> world \<Rightarrow> world" where
  "delete_migrations doomed w = w\<lparr>migrations := filter (\<lambda>m. \<not> doomed (m_id m)) (migrations w)\<rparr>"

text \<open>
  The callback of a render whose \<^verbatim>\<open>currentMigrationId\<close> was \<open>captured\<close> and whose
  \<^verbatim>\<open>user?.id\<close> was \<open>user\<close>.
\<close>

definition getOrCreateMigrationId ::
  "string option \<Rightarrow> string option \<Rightarrow> env \<Rightarrow> world \<Rightarrow> string option promise \<times> world" where
  "getOrCreateMigrationId captured user e w =
     (if truthy captured then (Fulfilled captured, w)
      else
        let twentyFourHoursAgo = now e - 24 * 60 * 60 * 1000;
            w1 = send (SelectRecentMigration user twentyFourHoursAgo) w
        in (case select_recent e of
              Throws \<Rightarrow> (Rejected, w1)
            | answered \<Rightarrow>
                let recentMigration =
                      (if answered = Succeeds then recent_migration user twentyFourHoursAgo w1
                       else None)
                in (case recentMigration of
                      None \<Rightarrow>
                        (let (r, w2) = startNewMigration user None e w1 in (Fulfilled r, w2))
                    | Some (rid, rfiles) \<Rightarrow>
                        if rid \<noteq> [] \<and> length rfiles > 0
                        then (Fulfilled (Some rid), w1\<lparr>currentMigrationId := Some rid\<rparr>)
                        else if rid \<noteq> [] \<and> length rfiles = 0
                        then
                          (let w2 = send (DeleteMigrationById rid) w1
                           in (case delete_recent e of
                                 Throws \<Rightarrow> (Rejected, w2)
                               | Fails \<Rightarrow>
                                   (let (r, w3) = startNewMigration user None e w2
                                    in (Fulfilled r, w3))
                               | Succeeds \<Rightarrow>
                                   (let (r, w3) = startNewMigration user None e
                                                    (delete_migrations (\<lambda>i. i = rid) w2)
                                    in (Fulfilled r, w3))))
                        else
                          (let (r, w2) = startNewMigration user None e w1 in (Fulfilled r, w2)))))"

subsection \<open>handleCodeUpload\<close>

text \<open>The mapping of an uploaded file to a \<^verbatim>\<open>FileItem\<close>.\<close>

definition toFileItem :: "FileItem \<Rightarrow> FileItem" where
  "toFileItem file =
     \<lparr>fid = fid file, name = name file, path = name file, ftype = ftype file,
      content = content file, conversionStatus = Pending, convertedContent = None,
      errorMessage = None, dataTypeMapping = Some [], issues = Some [],
      performanceMetrics = None\<rparr>"

definition inserted_row :: "string \<Rightarrow> string \<Rightarrow> FileItem \<Rightarrow> file_row" where
  "inserted_row rid migrationId file =
     \<lparr>mf_id = rid, mf_migration_id = migrationId, file_name = name file,
      file_path = path file, file_type = ftype file, original_content = content file,
      conversion_status = ''pending'', converted_content = None, error_message = None,
      data_type_mapping = None, performance_metrics = None, mf_issues = None,
      mf_updated_at = None\<rparr>"

text \<open>
  The loop over \<^verbatim>\<open>convertedFiles\<close>. \<open>k\<close> is the position of the file in the batch,
  \<open>existingFileNames\<close> the JavaScript \<^verbatim>\<open>Set\<close>. The result is \<open>True\<close> when an
  \<^verbatim>\<open>await\<close> threw, which leaves the loop for the \<^verbatim>\<open>catch\<close> block.
\<close>

fun save_files ::
  "string \<Rightarrow> FileItem list \<Rightarrow> string set \<Rightarrow> nat \<Rightarrow> env \<Rightarrow> world \<Rightarrow> bool \<times> world" where
  "save_files migrationId [] existingFileNames k e w = (False, w)"
| "save_files migrationId (file # rest) existingFileNames k e w =
     (if toLowerCase e (name file) \<in> existingFileNames
      then save_files migrationId rest existingFileNames (Suc k) e w
      else
        let w1 = send (InsertFile migrationId (name file) (path file) (ftype file)
                         (content file) ''pending'') w
        in (case insert_file e k of
              Throws \<Rightarrow> (True, w1)
            | Fails \<Rightarrow> save_files migrationId rest existingFileNames (Suc k) e w1
            | Succeeds \<Rightarrow>
                save_files migrationId rest
                  (insert (toLowerCase e (name file)) existingFileNames) (Suc k) e
                  (w1\<lparr>migration_files := migration_files w1 @
                        [inserted_row (new_file_id e k) migrationId file]\<rparr>)))"

text \<open>\<^verbatim>\<open>select('file_name').eq('migration_id', migrationId)\<close>.\<close>

definition session_file_names :: "string \<Rightarrow> world \<Rightarrow> string list" where
  "session_file_names mid w =
     map file_name (filter (\<lambda>f. mf_migration_id f = mid) (migration_files w))"

text \<open>
  The callback of a render whose \<^verbatim>\<open>getOrCreateMigrationId\<close> closed over \<open>captured\<close>.
\<close>

definition handleCodeUpload ::
  "string option \<Rightarrow> string option \<Rightarrow> FileItem list \<Rightarrow> env \<Rightarrow> world \<Rightarrow>
   FileItem list promise \<times> world" where
  "handleCodeUpload captured user uploadedFiles e w =
     (case user of
        None \<Rightarrow> (Fulfilled [], show_toast ''Authentication Required'' True w)
      | Some uid \<Rightarrow>
          (case getOrCreateMigrationId captured user e w of
             (Rejected, w1) \<Rightarrow> (Rejected, w1)
           | (Fulfilled r, w1) \<Rightarrow>
               if \<not> truthy r then (Fulfilled [], show_toast ''Upload Failed'' True w1)
               else
                 let migrationId = the r;
                     convertedFiles = map toFileItem uploadedFiles;
                     w2 = send (SelectFileNames migrationId) w1
                 in (case select_existing e of
                       Throws \<Rightarrow>
                         (Fulfilled convertedFiles, show_toast ''Upload Failed'' True w2)
                     | answered \<Rightarrow>
                         let existingFiles =
                               (if answered = Succeeds
                                then Some (session_file_names migrationId w2) else None);
                             existingFileNames =
                               set (map (toLowerCase e)
                                      (case existingFiles of None \<Rightarrow> [] | Some fs \<Rightarrow> fs))
                         in (case save_files migrationId convertedFiles existingFileNames 0 e w2 of
                               (True, w3) \<Rightarrow>
                                 (Fulfilled convertedFiles, show_toast ''Upload Failed'' True w3)
                             | (False, w3) \<Rightarrow>
                                 (Fulfilled convertedFiles,
                                  show_toast ''Files Uploaded'' False w3)))))"

subsection \<open>updateFileStatus\<close>

definition updateData ::
  "conversion_status_t \<Rightarrow> string option \<Rightarrow> string option \<Rightarrow> json option \<Rightarrow> json option \<Rightarrow>
   json option \<Rightarrow> env \<Rightarrow> update_data" where
  "updateData status convertedContent' errorMessage' dataTypeMapping' performanceMetrics' issues' e =
     (let d0 = \<lparr>u_conversion_status = status_text status, u_updated_at = now e,
                u_converted_content = None, u_error_message = None,
                u_data_type_mapping = None, u_performance_metrics = None, u_issues = None\<rparr>;
          d1 = (if convertedContent' \<noteq> None then d0\<lparr>u_converted_content := convertedContent'\<rparr> else d0);
          d2 = (if errorMessage' \<noteq> None then d1\<lparr>u_error_message := errorMessage'\<rparr> else d1);
          d3 = (if dataTypeMapping' \<noteq> None then d2\<lparr>u_data_type_mapping := dataTypeMapping'\<rparr> else d2);
          d4 = (if performanceMetrics' \<noteq> None
                then d3\<lparr>u_performance_metrics := performanceMetrics'\<rparr> else d3);
          d5 = (if issues' \<noteq> None then d4\<lparr>u_issues := issues'\<rparr> else d4)
      in d5)"

text \<open>The backend's \<^verbatim>\<open>UPDATE ... SET\<close>: a column is written when its key is in the payload.\<close>

definition apply_update :: "update_data \<Rightarrow> file_row \<Rightarrow> file_row" where
  "apply_update d r =
     r\<lparr>conversion_status := u_conversion_status d,
       mf_updated_at := Some (u_updated_at d),
       converted_content :=
         (case u_converted_content d of None \<Rightarrow> converted_content r | Some v \<Rightarrow> Some v),
       error_message :=
         (case u_error_message d of None \<Rightarrow> error_message r | Some v \<Rightarrow> Some v),
       data_type_mapping :=
         (case u_data_type_mapping d of None \<Rightarrow> data_type_mapping r | Some v \<Rightarrow> Some v),
       performance_metrics :=
         (case u_performance_metrics d of None \<Rightarrow> performance_metrics r | Some v \<Rightarrow> Some v),
       mf_issues := (case u_issues d of None \<Rightarrow> mf_issues r | Some v \<Rightarrow> Some v)\<rparr>"

definition updateFileStatus ::
  "string \<Rightarrow> conversion_status_t \<Rightarrow> string option \<Rightarrow> string option \<Rightarrow> json option \<Rightarrow>
   json option \<Rightarrow> json option \<Rightarrow> env \<Rightarrow> world \<Rightarrow> bool \<times> world" where
  "updateFileStatus fileId status convertedContent' errorMessage' dataTypeMapping'
       performanceMetrics' issues' e w =
     (let d = updateData status convertedContent' errorMessage' dataTypeMapping'
                performanceMetrics' issues' e;
          w1 = send (UpdateFile fileId d) w
      in (case update_file e of
            Succeeds \<Rightarrow>
              (True, w1\<lparr>migration_files :=
                         map (\<lambda>r. if mf_id r = fileId then apply_update d r else r)
                           (migration_files w1)\<rparr>)
          | Fails \<Rightarrow> (False, w1)
          | Throws \<Rightarrow> (False, w1)))"

subsection \<open>cleanupEmptyMigrations\<close>

definition old_rows :: "string option \<Rightarrow> int \<Rightarrow> world \<Rightarrow> (string \<times> string list) list" where
  "old_rows user before w =
     map (\<lambda>m. (m_id m, files_of (m_id m) w))
       (filter (\<lambda>m. Some (m_user_id m) = user \<and> m_created_at m < before) (migrations w))"

definition cleanupEmptyMigrations :: "string option \<Rightarrow> env \<Rightarrow> world \<Rightarrow> world" where
  "cleanupEmptyMigrations user e w =
     (let twentyFourHoursAgo = now e - 24 * 60 * 60 * 1000;
          w1 = send (SelectOldMigrations user twentyFourHoursAgo) w
      in (case select_old e of
            Throws \<Rightarrow> w1
          | Fails \<Rightarrow> w1
          | Succeeds \<Rightarrow>
              let emptyMigrations = old_rows user twentyFourHoursAgo w1;
                  migrationsToDelete =
                    map fst (filter (\<lambda>m. length (snd m) = 0) emptyMigrations)
              in if length migrationsToDelete > 0
                 then
                   (let w2 = send (DeleteMigrationsIn migrationsToDelete) w1
                    in (case delete_old e of
                          Succeeds \<Rightarrow> delete_migrations (\<lambda>i. i \<in> set migrationsToDelete) w2
                        | Fails \<Rightarrow> w2
                        | Throws \<Rightarrow> w2))
                 else w1))"

subsection \<open>deleteMigration\<close>


subsection \<open>getMigrationStats\<close>

record stats =
  total :: nat
  success :: nat
  failed :: nat
  pending :: nat
  deployed :: nat

text \<open>The summary built from \<^verbatim>\<open>data\<close> (\<open>None\<close> is \<^verbatim>\<open>null\<close>) once no error was reported.\<close>

definition summary :: "string list option \<Rightarrow> stats" where
  "summary data' =
     (let files' = (case data' of None \<Rightarrow> [] | Some d \<Rightarrow> d)
      in \<lparr>total = length files',
          success = length (filter (\<lambda>f. f = ''success'') files'),
          failed = length (filter (\<lambda>f. f = ''failed'') files'),
          pending = length (filter (\<lambda>f. f = ''pending'') files'),
          deployed = length (filter (\<lambda>f. f = ''deployed'') files')\<rparr>)"

definition session_statuses :: "string \<Rightarrow> world \<Rightarrow> string list" where
  "session_statuses mid w =
     map conversion_status (filter (\<lambda>f. mf_migration_id f = mid) (migration_files w))"

definition getMigrationStats :: "string \<Rightarrow> env \<Rightarrow> world \<Rightarrow> stats option \<times> world" where
  "getMigrationStats migrationId e w =
     (let w1 = send (SelectStatuses migrationId) w
      in (case select_statuses e of
            Throws \<Rightarrow> (None, w1)
          | Fails \<Rightarrow> (None, w1)
          | Succeeds \<Rightarrow> (Some (summary (Some (session_statuses migrationId w1))), w1)))"

section \<open>The dashboard controller\<close>

datatype tab = UploadTab | ConversionTab | PendingTab

record dashboard =
  activeTab :: tab
  files :: "FileItem list"
  selectedFile :: "FileItem option"
  conversionResults :: "json list"
  selectedAiModel :: string
  report :: "json option"
  showReport :: bool
  showHelp :: bool
  customPrompt :: string
  showWizard :: bool
  wizardStep :: nat

definition handleManualEdit :: "string \<Rightarrow> dashboard \<Rightarrow> dashboard" where
  "handleManualEdit newContent d =
     (case selectedFile d of
        None \<Rightarrow> d
      | Some sel \<Rightarrow>
          let updatedFile = sel\<lparr>convertedContent := Some newContent\<rparr>
          in d\<lparr>files := map (\<lambda>file. if fid file = fid sel then updatedFile else file) (files d),
               selectedFile := Some updatedFile\<rparr>)"

text \<open>
  The handler of a render of the dashboard, whose \<^verbatim>\<open>handleCodeUpload\<close> is the callback
  the hook returned in that render (\<open>captured\<close> as above).
\<close>

definition handleResetMigration ::
  "string option \<Rightarrow> string option \<Rightarrow> env \<Rightarrow> dashboard \<times> world \<Rightarrow> dashboard \<times> world" where
  "handleResetMigration captured user e s =
     (let d1 = (fst s)\<lparr>files := [], conversionResults := [], selectedFile := None,
                       report := None, activeTab := UploadTab\<rparr>
      in (case handleCodeUpload captured user [] e (snd s) of
            (Fulfilled uploaded, w1) \<Rightarrow> (d1, show_toast ''Migration Reset'' False w1)
          | (Rejected, w1) \<Rightarrow> (d1, show_toast ''Reset Error'' True w1)))"

section \<open>Example states\<close>

text \<open>
  On text of ASCII characters \<^verbatim>\<open>toLowerCase\<close> maps the letters \<^verbatim>\<open>A\<close> to \<^verbatim>\<open>Z\<close> to
  \<^verbatim>\<open>a\<close> to \<^verbatim>\<open>z\<close> and nothing else. The example environment, whose file names are
  ASCII, uses this function.
\<close>

definition ascii_lower_char :: "char \<Rightarrow> char" where
  "ascii_lower_char c =
     (let n = (of_char c :: nat) in if 65 \<le> n \<and> n \<le> 90 then char_of (n + 32) else c)"

definition ascii_toLowerCase :: "string \<Rightarrow> string" where
  "ascii_toLowerCase s = map ascii_lower_char s"

text \<open>
  A backend answering every request, at a time \<open>100000000\<close> ms, so that a session is
  recent when it was created at or after \<open>13600000\<close>.
\<close>

definition example_env :: env where
  "example_env =
     \<lparr>toLowerCase = ascii_toLowerCase, now = 100000000, local_time = ''101500'', new_migration_id = ''m9'',
      insert_migration = Succeeds, select_recent = Succeeds, delete_recent = Succeeds,
      select_existing = Succeeds, insert_file = (\<lambda>k. Succeeds),
      new_file_id = (\<lambda>k. if k = 0 then ''f10'' else if k = 1 then ''f11'' else ''f12''),
      update_file = Succeeds, select_old = Succeeds, delete_old = Succeeds,
      delete_files = Succeeds, delete_migration = Succeeds, select_statuses = Succeeds\<rparr>"


definition example_row :: "string \<Rightarrow> string \<Rightarrow> string \<Rightarrow> string \<Rightarrow> file_row" where
  "example_row rid mid fname status =
     \<lparr>mf_id = rid, mf_migration_id = mid, file_name = fname, file_path = fname,
      file_type = Table, original_content = ''create table t (a int)'',
      conversion_status = status, converted_content = None, error_message = None,
      data_type_mapping = None, performance_metrics = None, mf_issues = None,
      mf_updated_at = None\<rparr>"

text \<open>
  User \<open>u1\<close> owns a recent session \<open>m1\<close> with two files, an old empty session \<open>m2\<close> and
  an old session \<open>m4\<close> with one file; user \<open>u2\<close> owns a recent empty session \<open>m3\<close> and
  an old empty session \<open>m5\<close>.
\<close>

definition example_world :: world where
  "example_world =
     \<lparr>migrations =
        [\<lparr>m_id = ''m1'', m_user_id = ''u1'', m_project_name = ''Migration_090000'',
          m_created_at = 99000000\<rparr>,
         \<lparr>m_id = ''m2'', m_user_id = ''u1'', m_project_name = ''Migration_080000'',
          m_created_at = 1000\<rparr>,
         \<lparr>m_id = ''m3'', m_user_id = ''u2'', m_project_name = ''Migration_093000'',
          m_created_at = 99500000\<rparr>,
         \<lparr>m_id = ''m4'', m_user_id = ''u1'', m_project_name = ''Migration_070000'',
          m_created_at = 500\<rparr>,
         \<lparr>m_id = ''m5'', m_user_id = ''u2'', m_project_name = ''Migration_060000'',
          m_created_at = 200\<rparr>],
      migration_files =
        [example_row ''f1'' ''m1'' ''customers.sql'' ''success'',
         example_row ''f2'' ''m4'' ''legacy.sql'' ''failed'',
         example_row ''f3'' ''m1'' ''items.sql'' ''pending''],
      requests = [], toasts = [], currentMigrationId = None, isCreatingMigration = False\<rparr>"

definition example_file :: "string \<Rightarrow> string \<Rightarrow> FileItem" where
  "example_file i n =
     \<lparr>fid = i, name = n, path = ''/tmp/upload'', ftype = Procedure,
      content = ''create procedure p as select 1'', conversionStatus = Success,
      convertedContent = Some ''converted'', errorMessage = Some ''stale'',
      dataTypeMapping = None, issues = Some [''{}''], performanceMetrics = Some ''{}''\<rparr>"

definition example_dashboard :: dashboard where
  "example_dashboard =
     \<lparr>activeTab = ConversionTab,
      files = [example_file ''a'' ''orders.sql'', example_file ''b'' ''items.sql''],
      selectedFile = Some (example_file ''a'' ''orders.sql''),
      conversionResults = [''{}''], selectedAiModel = ''gemini-2.5-pro'',
      report = Some ''{}'', showReport = False, showHelp = False, customPrompt = [],
      showWizard = False, wizardStep = 0\<rparr>"

section \<open>Properties of the migration manager\<close>

subsection \<open>Calls that leave the file rows alone\<close>



subsection \<open>getOrCreateMigrationId without a current session\<close>

lemma newest_in_set: "newest rows = Some m \<Longrightarrow> m \<in> set rows"
  by (induction rows arbitrary: m) (auto split: option.splits if_splits)

lemma newest_empty: "newest rows = None \<longleftrightarrow> rows = []"
  by (induction rows) (auto split: option.splits)

lemma newest_greatest:
  "newest rows = Some m \<Longrightarrow> m' \<in> set rows \<Longrightarrow> m_created_at m' \<le> m_created_at m"
  by (induction rows arbitrary: m) (fastforce split: option.splits if_splits simp: newest_empty)+

lemma newest_unique:
  assumes "m \<in> set rows"
    and "\<forall>m'\<in>set rows. m' \<noteq> m \<longrightarrow> m_created_at m' < m_created_at m"
  shows "newest rows = Some m"
proof -
  obtain n where n: "newest rows = Some n"
    using assms(1) newest_empty[of rows] by (cases "newest rows") auto
  have "n \<in> set rows" using n by (rule newest_in_set)
  moreover have "m_created_at m \<le> m_created_at n" using n assms(1) by (rule newest_greatest)
  ultimately have "n = m" using assms(2) by force
  with n show ?thesis by simp
qed

lemma recent_migration_unique:
  assumes "m \<in> set (migrations w)" and "m_user_id m = uid" and "since \<le> m_created_at m"
    and "\<forall>m'\<in>set (migrations w). m_user_id m' = uid \<and> since \<le> m_created_at m' \<and> m' \<noteq> m \<longrightarrow>
           m_created_at m' < m_created_at m"
  shows "recent_migration (Some uid) since w = Some (m_id m, files_of (m_id m) w)"
proof -
  have "newest (recent_rows (Some uid) since w) = Some m"
    using assms by (intro newest_unique) (auto simp: recent_rows_def)
  then show ?thesis by (simp add: recent_migration_def)
qed

lemma recent_migration_none:
  assumes "\<forall>m\<in>set (migrations w). m_user_id m = uid \<longrightarrow> m_created_at m < since"
  shows "recent_migration (Some uid) since w = None"
proof -
  have "recent_rows (Some uid) since w = []"
    using assms by (auto simp: recent_rows_def filter_empty_conv)
  then show ?thesis by (simp add: recent_migration_def)
qed

lemma files_of_send [simp]: "files_of mid (send r w) = files_of mid w"
  by (simp add: files_of_def send_def)

lemma recent_migration_send [simp]:
  "recent_migration user since (send r w) = recent_migration user since w"
  by (simp add: recent_migration_def recent_rows_def send_def files_of_def split: option.splits)

lemma files_of_empty: "files_of mid w = [] \<longleftrightarrow> (\<forall>f\<in>set (migration_files w). mf_migration_id f \<noteq> mid)"
  by (auto simp: files_of_def filter_empty_conv)

lemma startNewMigration_ok:
  assumes "insert_migration e = Succeeds"
  shows "fst (startNewMigration (Some uid) None e w) = Some (new_migration_id e)"
    and "migrations (snd (startNewMigration (Some uid) None e w)) =
           migrations w @ [session_row uid (''Migration_'' @ local_time e) e]"
    and "currentMigrationId (snd (startNewMigration (Some uid) None e w)) =
           Some (new_migration_id e)"
  using assms
  by (simp_all add: startNewMigration_def truthy_def Let_def send_def show_toast_def session_row_def)

text \<open>
  C2. The callback holds no current session id and the query for the recent session is
  answered.
  (1) When \<open>m\<close> is the user's most recent session of the last 24 hours and has a file row,
  its id is returned and set as current, and nothing else changes but the trace.
  (2) When \<open>m\<close> is that session and has no file row, and the backend carries out the
  deletion and the insertion, the rows with the id of \<open>m\<close> are deleted, one new session row
  is appended, and its id is returned and set as current.
  (3) When the user has no session of the last 24 hours and the backend carries out the
  insertion, the table is the old one followed by exactly one new row, whose id is
  returned and set as current.
\<close>

theorem getOrCreateMigrationId_cases:
  assumes sel: "select_recent e = Succeeds"
  shows "(m \<in> set (migrations w) \<and> m_user_id m = uid \<and> now e - 86400000 \<le> m_created_at m \<and>
          (\<forall>m'\<in>set (migrations w).
              m_user_id m' = uid \<and> now e - 86400000 \<le> m_created_at m' \<and> m' \<noteq> m \<longrightarrow>
              m_created_at m' < m_created_at m) \<and>
          m_id m \<noteq> [] \<and> (\<exists>f\<in>set (migration_files w). mf_migration_id f = m_id m) \<longrightarrow>
          getOrCreateMigrationId None (Some uid) e w =
            (Fulfilled (Some (m_id m)),
             (send (SelectRecentMigration (Some uid) (now e - 86400000)) w)
               \<lparr>currentMigrationId := Some (m_id m)\<rparr>)) \<and>
         (m \<in> set (migrations w) \<and> m_user_id m = uid \<and> now e - 86400000 \<le> m_created_at m \<and>
          (\<forall>m'\<in>set (migrations w).
              m_user_id m' = uid \<and> now e - 86400000 \<le> m_created_at m' \<and> m' \<noteq> m \<longrightarrow>
              m_created_at m' < m_created_at m) \<and>
          m_id m \<noteq> [] \<and> (\<forall>f\<in>set (migration_files w). mf_migration_id f \<noteq> m_id m) \<and>
          delete_recent e = Succeeds \<and> insert_migration e = Succeeds \<longrightarrow>
          fst (getOrCreateMigrationId None (Some uid) e w) =
            Fulfilled (Some (new_migration_id e)) \<and>
          migrations (snd (getOrCreateMigrationId None (Some uid) e w)) =
            filter (\<lambda>x. m_id x \<noteq> m_id m) (migrations w) @
              [session_row uid (''Migration_'' @ local_time e) e] \<and>
          currentMigrationId (snd (getOrCreateMigrationId None (Some uid) e w)) =
            Some (new_migration_id e)) \<and>
         ((\<forall>m'\<in>set (migrations w). m_user_id m' = uid \<longrightarrow> m_created_at m' < now e - 86400000) \<and>
          insert_migration e = Succeeds \<longrightarrow>
          fst (getOrCreateMigrationId None (Some uid) e w) =
            Fulfilled (Some (new_migration_id e)) \<and>
          migrations (snd (getOrCreateMigrationId None (Some uid) e w)) =
            migrations w @ [session_row uid (''Migration_'' @ local_time e) e] \<and>
          currentMigrationId (snd (getOrCreateMigrationId None (Some uid) e w)) =
            Some (new_migration_id e))"
    (is "(?A1 \<longrightarrow> ?R1) \<and> (?A2 \<longrightarrow> ?R2) \<and> (?A3 \<longrightarrow> ?R3)")
proof (intro conjI impI)
  assume a: ?A1
  then have rm: "recent_migration (Some uid) (now e - 86400000) w =
                   Some (m_id m, files_of (m_id m) w)"
    by (intro recent_migration_unique) auto
  from a have nf: "files_of (m_id m) w \<noteq> []" by (auto simp: files_of_empty)
  from a have ni: "m_id m \<noteq> []" by simp
  show ?R1
    using sel rm nf ni by (simp add: getOrCreateMigrationId_def truthy_def Let_def)
next
  assume a: ?A2
  then have rm: "recent_migration (Some uid) (now e - 86400000) w =
                   Some (m_id m, files_of (m_id m) w)"
    by (intro recent_migration_unique) auto
  from a have nf: "files_of (m_id m) w = []" by (simp add: files_of_empty)
  from a have ni: "m_id m \<noteq> []" and d: "delete_recent e = Succeeds"
    and i: "insert_migration e = Succeeds" by simp_all
  let ?v = "delete_migrations (\<lambda>i. i = m_id m)
              (send (DeleteMigrationById (m_id m))
                 (send (SelectRecentMigration (Some uid) (now e - 86400000)) w))"
  have g: "getOrCreateMigrationId None (Some uid) e w =
             (Fulfilled (fst (startNewMigration (Some uid) None e ?v)),
              snd (startNewMigration (Some uid) None e ?v))"
    using sel rm nf ni d
    by (simp add: getOrCreateMigrationId_def truthy_def Let_def split_beta)
  have mv: "migrations ?v = filter (\<lambda>x. m_id x \<noteq> m_id m) (migrations w)"
    by (simp add: delete_migrations_def send_def)
  show "fst (getOrCreateMigrationId None (Some uid) e w) =
          Fulfilled (Some (new_migration_id e))"
    using g startNewMigration_ok(1)[OF i] by simp
  show "migrations (snd (getOrCreateMigrationId None (Some uid) e w)) =
          filter (\<lambda>x. m_id x \<noteq> m_id m) (migrations w) @
            [session_row uid (''Migration_'' @ local_time e) e]"
    using g startNewMigration_ok(2)[OF i, of uid ?v] mv by simp
  show "currentMigrationId (snd (getOrCreateMigrationId None (Some uid) e w)) =
          Some (new_migration_id e)"
    using g startNewMigration_ok(3)[OF i] by simp
next
  assume a: ?A3
  then have rm: "recent_migration (Some uid) (now e - 86400000) w = None"
    by (intro recent_migration_none) auto
  from a have i: "insert_migration e = Succeeds" by simp
  let ?v = "send (SelectRecentMigration (Some uid) (now e - 86400000)) w"
  have g: "getOrCreateMigrationId None (Some uid) e w =
             (Fulfilled (fst (startNewMigration (Some uid) None e ?v)),
              snd (startNewMigration (Some uid) None e ?v))"
    using sel rm
    by (simp add: getOrCreateMigrationId_def truthy_def Let_def split_beta)
  have mv: "migrations ?v = migrations w" by (simp add: send_def)
  show "fst (getOrCreateMigrationId None (Some uid) e w) =
          Fulfilled (Some (new_migration_id e))"
    using g startNewMigration_ok(1)[OF i] by simp
  show "migrations (snd (getOrCreateMigrationId None (Some uid) e w)) =
          migrations w @ [session_row uid (''Migration_'' @ local_time e) e]"
    using g startNewMigration_ok(2)[OF i, of uid ?v] mv by simp
  show "currentMigrationId (snd (getOrCreateMigrationId None (Some uid) e w)) =
          Some (new_migration_id e)"
    using g startNewMigration_ok(3)[OF i] by simp
qed

theorem getOrCreateMigrationId_cases_witness:
  "getOrCreateMigrationId None (Some ''u1'') example_env example_world =
     (Fulfilled (Some ''m1''),
      (send (SelectRecentMigration (Some ''u1'') (now example_env - 86400000)) example_world)
        \<lparr>currentMigrationId := Some ''m1''\<rparr>) \<and>
   (fst (getOrCreateMigrationId None (Some ''u2'') example_env example_world) =
      Fulfilled (Some (new_migration_id example_env)) \<and>
    migrations (snd (getOrCreateMigrationId None (Some ''u2'') example_env example_world)) =
      filter (\<lambda>x. m_id x \<noteq> ''m3'') (migrations example_world) @
        [session_row ''u2'' (''Migration_'' @ local_time example_env) example_env] \<and>
    currentMigrationId (snd (getOrCreateMigrationId None (Some ''u2'') example_env example_world)) =
      Some (new_migration_id example_env)) \<and>
   (fst (getOrCreateMigrationId None (Some ''u3'') example_env example_world) =
      Fulfilled (Some (new_migration_id example_env)) \<and>
    migrations (snd (getOrCreateMigrationId None (Some ''u3'') example_env example_world)) =
      migrations example_world @
        [session_row ''u3'' (''Migration_'' @ local_time example_env) example_env] \<and>
    currentMigrationId (snd (getOrCreateMigrationId None (Some ''u3'') example_env example_world)) =
      Some (new_migration_id example_env))"
proof -
  have sel: "select_recent example_env = Succeeds" by (simp add: example_env_def)
  let ?m1 = "\<lparr>m_id = ''m1'', m_user_id = ''u1'', m_project_name = ''Migration_090000'',
              m_created_at = 99000000\<rparr>"
  let ?m3 = "\<lparr>m_id = ''m3'', m_user_id = ''u2'', m_project_name = ''Migration_093000'',
              m_created_at = 99500000\<rparr>"
  note c = getOrCreateMigrationId_cases[OF sel]
  have r1: "getOrCreateMigrationId None (Some ''u1'') example_env example_world =
     (Fulfilled (Some (m_id ?m1)),
      (send (SelectRecentMigration (Some ''u1'') (now example_env - 86400000)) example_world)
        \<lparr>currentMigrationId := Some (m_id ?m1)\<rparr>)"
    by (rule c[of ?m1 example_world "''u1''", THEN conjunct1, THEN mp])
       (simp add: example_world_def example_env_def example_row_def)
  have r2: "fst (getOrCreateMigrationId None (Some ''u2'') example_env example_world) =
      Fulfilled (Some (new_migration_id example_env)) \<and>
    migrations (snd (getOrCreateMigrationId None (Some ''u2'') example_env example_world)) =
      filter (\<lambda>x. m_id x \<noteq> m_id ?m3) (migrations example_world) @
        [session_row ''u2'' (''Migration_'' @ local_time example_env) example_env] \<and>
    currentMigrationId (snd (getOrCreateMigrationId None (Some ''u2'') example_env example_world)) =
      Some (new_migration_id example_env)"
    by (rule c[of ?m3 example_world "''u2''", THEN conjunct2, THEN conjunct1, THEN mp])
       (simp add: example_world_def example_env_def example_row_def)
  have r3: "fst (getOrCreateMigrationId None (Some ''u3'') example_env example_world) =
      Fulfilled (Some (new_migration_id example_env)) \<and>
    migrations (snd (getOrCreateMigrationId None (Some ''u3'') example_env example_world)) =
      migrations example_world @
        [session_row ''u3'' (''Migration_'' @ local_time example_env) example_env] \<and>
    currentMigrationId (snd (getOrCreateMigrationId None (Some ''u3'') example_env example_world)) =
      Some (new_migration_id example_env)"
    by (rule c[of ?m1 example_world "''u3''", THEN conjunct2, THEN conjunct2, THEN mp])
       (simp add: example_world_def example_env_def)
  from r1 r2 r3 show ?thesis by simp
qed

subsection \<open>Upload: duplicates by file name\<close>










subsection \<open>The fast path of getOrCreateMigrationId\<close>






subsection \<open>Upload: what is returned and reported\<close>

lemma save_files_toasts: "toasts (snd (save_files mid fs names k e w)) = toasts w"
  by (induction fs arbitrary: names k w)
     (auto simp: Let_def send_def split: outcome.splits)

lemma save_files_no_throw:
  "\<forall>i. insert_file e i \<noteq> Throws \<Longrightarrow> fst (save_files mid fs names k e w) = False"
proof (induction fs arbitrary: names k w)
  case Nil
  then show ?case by simp
next
  case (Cons f rest)
  from Cons.prems have "insert_file e k \<noteq> Throws" by simp
  with Cons show ?case
    by (cases "insert_file e k") (simp_all add: Let_def)
qed

text \<open>
  C5. For an authenticated user and a session id that \<open>getOrCreateMigrationId\<close> yields,
  \<open>handleCodeUpload\<close> returns every input file mapped by \<open>toFileItem\<close>, whatever the
  backend answers afterwards; the mapped file keeps id, name, type and content, has the
  name as path, status \<open>Pending\<close>, no converted content, error message or metrics, and
  empty mapping and issue lists. When no request throws, the toast is
  \<^verbatim>\<open>Files Uploaded\<close>, however many insertions were answered with an error.
\<close>

theorem handleCodeUpload_returns_all:
  assumes goc: "getOrCreateMigrationId captured (Some uid) e w = (Fulfilled (Some mid), w1)"
    and mid: "mid \<noteq> []"
  shows "fst (handleCodeUpload captured (Some uid) uploadedFiles e w) =
           Fulfilled (map toFileItem uploadedFiles) \<and>
         (\<forall>f\<in>set uploadedFiles.
            fid (toFileItem f) = fid f \<and> name (toFileItem f) = name f \<and>
            path (toFileItem f) = name f \<and> ftype (toFileItem f) = ftype f \<and>
            content (toFileItem f) = content f \<and>
            conversionStatus (toFileItem f) = Pending \<and>
            convertedContent (toFileItem f) = None \<and> errorMessage (toFileItem f) = None \<and>
            performanceMetrics (toFileItem f) = None \<and>
            dataTypeMapping (toFileItem f) = Some [] \<and> issues (toFileItem f) = Some []) \<and>
         (select_existing e \<noteq> Throws \<and> (\<forall>i. insert_file e i \<noteq> Throws) \<longrightarrow>
            toasts (snd (handleCodeUpload captured (Some uid) uploadedFiles e w)) =
              toasts w1 @ [Toast ''Files Uploaded'' False])"
proof (intro conjI impI)
  show "fst (handleCodeUpload captured (Some uid) uploadedFiles e w) =
          Fulfilled (map toFileItem uploadedFiles)"
    using goc mid
    by (simp add: handleCodeUpload_def truthy_def Let_def
             split: outcome.splits prod.splits bool.splits)
  show "\<forall>f\<in>set uploadedFiles.
            fid (toFileItem f) = fid f \<and> name (toFileItem f) = name f \<and>
            path (toFileItem f) = name f \<and> ftype (toFileItem f) = ftype f \<and>
            content (toFileItem f) = content f \<and>
            conversionStatus (toFileItem f) = Pending \<and>
            convertedContent (toFileItem f) = None \<and> errorMessage (toFileItem f) = None \<and>
            performanceMetrics (toFileItem f) = None \<and>
            dataTypeMapping (toFileItem f) = Some [] \<and> issues (toFileItem f) = Some []"
    by (simp add: toFileItem_def)
next
  assume a: "select_existing e \<noteq> Throws \<and> (\<forall>i. insert_file e i \<noteq> Throws)"
  let ?w2 = "send (SelectFileNames mid) w1"
  let ?names = "set (map (toLowerCase e)
                  (case (if select_existing e = Succeeds
                         then Some (session_file_names mid ?w2) else None) of
                     None \<Rightarrow> [] | Some fs \<Rightarrow> fs))"
  let ?sf = "save_files mid (map toFileItem uploadedFiles) ?names 0 e ?w2"
  have nt: "fst ?sf = False" using a by (intro save_files_no_throw) simp
  have ts: "toasts (snd ?sf) = toasts w1"
    by (simp add: save_files_toasts send_def)
  have "handleCodeUpload captured (Some uid) uploadedFiles e w =
          (Fulfilled (map toFileItem uploadedFiles), show_toast ''Files Uploaded'' False (snd ?sf))"
    using goc mid a nt
    by (cases "select_existing e"; cases ?sf)
       (simp_all add: handleCodeUpload_def truthy_def Let_def)
  then show "toasts (snd (handleCodeUpload captured (Some uid) uploadedFiles e w)) =
               toasts w1 @ [Toast ''Files Uploaded'' False]"
    using ts by (simp add: show_toast_def)
qed

text \<open>Every insertion is answered with an error: no row is added, success is reported.\<close>

theorem handleCodeUpload_returns_all_witness:
  "getOrCreateMigrationId None (Some ''u1'') (example_env\<lparr>insert_file := (\<lambda>k. Fails)\<rparr>)
       example_world =
     (Fulfilled (Some ''m1''),
      (send (SelectRecentMigration (Some ''u1'') 13600000) example_world)
        \<lparr>currentMigrationId := Some ''m1''\<rparr>) \<and>
   ''m1'' \<noteq> [] \<and>
   fst (handleCodeUpload None (Some ''u1'')
          [example_file ''a'' ''orders.sql'', example_file ''b'' ''views.sql'']
          (example_env\<lparr>insert_file := (\<lambda>k. Fails)\<rparr>) example_world) =
     Fulfilled [toFileItem (example_file ''a'' ''orders.sql''),
                toFileItem (example_file ''b'' ''views.sql'')] \<and>
   toasts (snd (handleCodeUpload None (Some ''u1'')
          [example_file ''a'' ''orders.sql'', example_file ''b'' ''views.sql'']
          (example_env\<lparr>insert_file := (\<lambda>k. Fails)\<rparr>) example_world)) =
     [Toast ''Files Uploaded'' False] \<and>
   migration_files (snd (handleCodeUpload None (Some ''u1'')
          [example_file ''a'' ''orders.sql'', example_file ''b'' ''views.sql'']
          (example_env\<lparr>insert_file := (\<lambda>k. Fails)\<rparr>) example_world)) =
     migration_files example_world \<and>
   conversionStatus (toFileItem (example_file ''a'' ''orders.sql'')) = Pending \<and>
   convertedContent (toFileItem (example_file ''a'' ''orders.sql'')) = None"
proof -
  let ?e = "example_env\<lparr>insert_file := (\<lambda>k. Fails)\<rparr>"
  let ?fs = "[example_file ''a'' ''orders.sql'', example_file ''b'' ''views.sql'']"
  let ?w1 = "(send (SelectRecentMigration (Some ''u1'') 13600000) example_world)
               \<lparr>currentMigrationId := Some ''m1''\<rparr>"
  have h1: "getOrCreateMigrationId None (Some ''u1'') ?e example_world =
              (Fulfilled (Some ''m1''), ?w1)"
    by code_simp
  have h2: "''m1'' \<noteq> []" by simp
  note t = handleCodeUpload_returns_all[OF h1 h2, of ?fs]
  have r1: "fst (handleCodeUpload None (Some ''u1'') ?fs ?e example_world) =
              Fulfilled (map toFileItem ?fs)"
    using t by (rule conjunct1)
  have r3: "toasts (snd (handleCodeUpload None (Some ''u1'') ?fs ?e example_world)) =
              toasts ?w1 @ [Toast ''Files Uploaded'' False]"
    by (rule t[THEN conjunct2, THEN conjunct2, THEN mp]) (simp add: example_env_def)
  have tw: "toasts ?w1 = []" by (simp add: send_def example_world_def)
  have ev: "migration_files (snd (handleCodeUpload None (Some ''u1'') ?fs ?e example_world)) =
              migration_files example_world"
    by code_simp
  have p: "conversionStatus (toFileItem (example_file ''a'' ''orders.sql'')) = Pending \<and>
           convertedContent (toFileItem (example_file ''a'' ''orders.sql'')) = None"
    by (simp add: toFileItem_def)
  from h1 h2 r1 r3 tw ev p show ?thesis by simp
qed

subsection \<open>updateFileStatus\<close>

lemma updateData_eq:
  "updateData status cc em dtm pm iss e =
     \<lparr>u_conversion_status = status_text status, u_updated_at = now e,
      u_converted_content = cc, u_error_message = em, u_data_type_mapping = dtm,
      u_performance_metrics = pm, u_issues = iss\<rparr>"
  by (simp add: updateData_def Let_def)

lemma updateFileStatus_requests:
  "requests (snd (updateFileStatus fileId status cc em dtm pm iss e w)) =
     requests w @ [UpdateFile fileId (updateData status cc em dtm pm iss e)]"
  by (cases "update_file e") (simp_all add: updateFileStatus_def Let_def send_def)

lemma updateFileStatus_column:
  assumes "\<And>r. col (apply_update (updateData status cc em dtm pm iss e) r) = col r"
  shows "map col (migration_files (snd (updateFileStatus fileId status cc em dtm pm iss e w))) =
         map col (migration_files w)"
  using assms
  by (cases "update_file e") (simp_all add: updateFileStatus_def Let_def send_def)

text \<open>
  C6. The payload of \<open>updateFileStatus\<close> always holds the status and the time of the
  call; each optional key holds exactly the argument, so it is present if and only if the
  argument was given; the payload is what is sent; and for an omitted argument the stored
  column of every row is the same after the call as before, whatever the backend answers.
\<close>

theorem updateFileStatus_partial_update:
  "u_conversion_status (updateData status cc em dtm pm iss e) = status_text status \<and>
   u_updated_at (updateData status cc em dtm pm iss e) = now e \<and>
   u_converted_content (updateData status cc em dtm pm iss e) = cc \<and>
   u_error_message (updateData status cc em dtm pm iss e) = em \<and>
   u_data_type_mapping (updateData status cc em dtm pm iss e) = dtm \<and>
   u_performance_metrics (updateData status cc em dtm pm iss e) = pm \<and>
   u_issues (updateData status cc em dtm pm iss e) = iss \<and>
   requests (snd (updateFileStatus fileId status cc em dtm pm iss e w)) =
     requests w @ [UpdateFile fileId (updateData status cc em dtm pm iss e)] \<and>
   (cc = None \<longrightarrow>
      map converted_content (migration_files (snd (updateFileStatus fileId status cc em dtm pm iss e w))) =
      map converted_content (migration_files w)) \<and>
   (em = None \<longrightarrow>
      map error_message (migration_files (snd (updateFileStatus fileId status cc em dtm pm iss e w))) =
      map error_message (migration_files w)) \<and>
   (dtm = None \<longrightarrow>
      map data_type_mapping (migration_files (snd (updateFileStatus fileId status cc em dtm pm iss e w))) =
      map data_type_mapping (migration_files w)) \<and>
   (pm = None \<longrightarrow>
      map performance_metrics (migration_files (snd (updateFileStatus fileId status cc em dtm pm iss e w))) =
      map performance_metrics (migration_files w)) \<and>
   (iss = None \<longrightarrow>
      map mf_issues (migration_files (snd (updateFileStatus fileId status cc em dtm pm iss e w))) =
      map mf_issues (migration_files w))"
proof (intro conjI impI)
  show "requests (snd (updateFileStatus fileId status cc em dtm pm iss e w)) =
          requests w @ [UpdateFile fileId (updateData status cc em dtm pm iss e)]"
    by (rule updateFileStatus_requests)
next
  assume "cc = None"
  then show "map converted_content
               (migration_files (snd (updateFileStatus fileId status cc em dtm pm iss e w))) =
             map converted_content (migration_files w)"
    by (intro updateFileStatus_column) (simp add: updateData_eq apply_update_def)
next
  assume "em = None"
  then show "map error_message
               (migration_files (snd (updateFileStatus fileId status cc em dtm pm iss e w))) =
             map error_message (migration_files w)"
    by (intro updateFileStatus_column) (simp add: updateData_eq apply_update_def)
next
  assume "dtm = None"
  then show "map data_type_mapping
               (migration_files (snd (updateFileStatus fileId status cc em dtm pm iss e w))) =
             map data_type_mapping (migration_files w)"
    by (intro updateFileStatus_column) (simp add: updateData_eq apply_update_def)
next
  assume "pm = None"
  then show "map performance_metrics
               (migration_files (snd (updateFileStatus fileId status cc em dtm pm iss e w))) =
             map performance_metrics (migration_files w)"
    by (intro updateFileStatus_column) (simp add: updateData_eq apply_update_def)
next
  assume "iss = None"
  then show "map mf_issues
               (migration_files (snd (updateFileStatus fileId status cc em dtm pm iss e w))) =
             map mf_issues (migration_files w)"
    by (intro updateFileStatus_column) (simp add: updateData_eq apply_update_def)
qed (simp_all add: updateData_eq)

theorem updateFileStatus_partial_update_witness:
  "u_converted_content (updateData Success (Some ''select 1 from dual'') None None None None
      example_env) = Some ''select 1 from dual'' \<and>
   u_error_message (updateData Success (Some ''select 1 from dual'') None None None None
      example_env) = None \<and>
   map error_message (migration_files (snd (updateFileStatus ''f3'' Success
      (Some ''select 1 from dual'') None None None None example_env
      (example_world\<lparr>migration_files :=
         [(example_row ''f3'' ''m1'' ''items.sql'' ''failed'')\<lparr>error_message := Some ''ORA-00942''\<rparr>]\<rparr>)))) =
     [Some ''ORA-00942''] \<and>
   map conversion_status (migration_files (snd (updateFileStatus ''f3'' Success
      (Some ''select 1 from dual'') None None None None example_env
      (example_world\<lparr>migration_files :=
         [(example_row ''f3'' ''m1'' ''items.sql'' ''failed'')\<lparr>error_message := Some ''ORA-00942''\<rparr>]\<rparr>)))) =
     [''success''] \<and>
   map converted_content (migration_files (snd (updateFileStatus ''f3'' Success
      (Some ''select 1 from dual'') None None None None example_env
      (example_world\<lparr>migration_files :=
         [(example_row ''f3'' ''m1'' ''items.sql'' ''failed'')\<lparr>error_message := Some ''ORA-00942''\<rparr>]\<rparr>)))) =
     [Some ''select 1 from dual'']"
proof -
  let ?w = "example_world\<lparr>migration_files :=
         [(example_row ''f3'' ''m1'' ''items.sql'' ''failed'')\<lparr>error_message := Some ''ORA-00942''\<rparr>]\<rparr>"
  note t = updateFileStatus_partial_update[of Success "Some ''select 1 from dual''" None None
             None None example_env "''f3''" ?w]
  have a: "u_converted_content (updateData Success (Some ''select 1 from dual'') None None None
             None example_env) = Some ''select 1 from dual''"
    using t by blast
  have b: "u_error_message (updateData Success (Some ''select 1 from dual'') None None None None
      example_env) = None"
    using t by blast
  have c: "map error_message (migration_files (snd (updateFileStatus ''f3'' Success
      (Some ''select 1 from dual'') None None None None example_env ?w))) =
      map error_message (migration_files ?w)"
    using t by blast
  have d: "map error_message (migration_files ?w) = [Some ''ORA-00942'']"
    by (simp add: example_row_def)
  have ev: "map conversion_status (migration_files (snd (updateFileStatus ''f3'' Success
      (Some ''select 1 from dual'') None None None None example_env ?w))) = [''success''] \<and>
     map converted_content (migration_files (snd (updateFileStatus ''f3'' Success
      (Some ''select 1 from dual'') None None None None example_env ?w))) =
     [Some ''select 1 from dual'']"
    by (simp add: updateFileStatus_def updateData_eq apply_update_def example_env_def
          example_row_def send_def Let_def)
  from a b c d ev show ?thesis by simp
qed

subsection \<open>deleteMigration\<close>



subsection \<open>cleanupEmptyMigrations\<close>

lemma old_rows_send: "old_rows user t (send r w) = old_rows user t w"
  by (simp add: old_rows_def send_def files_of_def)

lemma send_tables:
  "migrations (send r w) = migrations w" "migration_files (send r w) = migration_files w"
  by (simp_all add: send_def)

text \<open>The ids that cleanup selects for deletion.\<close>

lemma to_delete_set:
  "set (map fst (filter (\<lambda>m. length (snd m) = 0) (old_rows (Some uid) t w))) =
     m_id ` {m \<in> set (migrations w). m_user_id m = uid \<and> m_created_at m < t \<and>
               (\<forall>f\<in>set (migration_files w). mf_migration_id f \<noteq> m_id m)}"
  by (auto simp: old_rows_def files_of_def filter_empty_conv image_iff)

lemma to_delete_no_files:
  "i \<in> set (map fst (filter (\<lambda>m. length (snd m) = 0) (old_rows user t w))) \<Longrightarrow>
   \<forall>f\<in>set (migration_files w). mf_migration_id f \<noteq> i"
  by (auto simp: old_rows_def files_of_def filter_empty_conv)

lemma cleanup_migrations:
  "migrations (cleanupEmptyMigrations user e w) = migrations w \<or>
   migrations (cleanupEmptyMigrations user e w) =
     filter (\<lambda>m. m_id m \<notin> set (map fst (filter (\<lambda>m. length (snd m) = 0)
                 (old_rows user (now e - 86400000) w)))) (migrations w)"
  by (cases "select_old e"; cases "delete_old e")
     (simp_all add: cleanupEmptyMigrations_def Let_def old_rows_send send_tables
        delete_migrations_def)

lemma cleanup_migrations_ok:
  assumes "select_old e = Succeeds" "delete_old e = Succeeds"
  shows "migrations (cleanupEmptyMigrations user e w) =
     filter (\<lambda>m. m_id m \<notin> set (map fst (filter (\<lambda>m. length (snd m) = 0)
                 (old_rows user (now e - 86400000) w)))) (migrations w)"
proof (cases "map fst (filter (\<lambda>m. length (snd m) = 0) (old_rows user (now e - 86400000) w)) = []")
  case True
  with assms show ?thesis
    by (simp add: cleanupEmptyMigrations_def Let_def old_rows_send send_tables)
next
  case False
  with assms show ?thesis
    by (simp add: cleanupEmptyMigrations_def Let_def old_rows_send send_tables
          delete_migrations_def)
qed

lemma cleanup_files: "migration_files (cleanupEmptyMigrations user e w) = migration_files w"
  by (cases "select_old e"; cases "delete_old e")
     (simp_all add: cleanupEmptyMigrations_def Let_def old_rows_send send_tables
        delete_migrations_def)

text \<open>
  C4. With session ids distinct (the primary key) and both requests carried out, the
  session table after cleanup is the table before without exactly the rows of the user
  that are older than 24 hours and have no file row. Whatever the backend answers, a
  session that has a file row stays, whatever its age, and no file row changes.
\<close>

theorem cleanupEmptyMigrations_exact:
  "(select_old e = Succeeds \<and> delete_old e = Succeeds \<and> distinct (map m_id (migrations w)) \<longrightarrow>
      migrations (cleanupEmptyMigrations (Some uid) e w) =
        filter (\<lambda>m. \<not> (m_user_id m = uid \<and> m_created_at m < now e - 86400000 \<and>
                         (\<forall>f\<in>set (migration_files w). mf_migration_id f \<noteq> m_id m)))
          (migrations w)) \<and>
   (\<forall>m\<in>set (migrations w).
      (\<exists>f\<in>set (migration_files w). mf_migration_id f = m_id m) \<longrightarrow>
      m \<in> set (migrations (cleanupEmptyMigrations user e w))) \<and>
   migration_files (cleanupEmptyMigrations user e w) = migration_files w"
proof (intro conjI impI ballI)
  assume a: "select_old e = Succeeds \<and> delete_old e = Succeeds \<and> distinct (map m_id (migrations w))"
  let ?t = "now e - 86400000"
  let ?del = "\<lambda>m. m_user_id m = uid \<and> m_created_at m < ?t \<and>
                 (\<forall>f\<in>set (migration_files w). mf_migration_id f \<noteq> m_id m)"
  let ?ids = "set (map fst (filter (\<lambda>m. length (snd m) = 0) (old_rows (Some uid) ?t w)))"
  from a have inj: "inj_on m_id (set (migrations w))" by (simp add: distinct_map)
  have "m_id m \<in> ?ids \<longleftrightarrow> ?del m" if "m \<in> set (migrations w)" for m
  proof
    assume "m_id m \<in> ?ids"
    then obtain m' where m': "m' \<in> set (migrations w)" "?del m'" "m_id m = m_id m'"
      unfolding to_delete_set by blast
    with inj that have "m = m'" by (auto dest: inj_onD)
    with m' show "?del m" by simp
  next
    assume "?del m"
    with that show "m_id m \<in> ?ids" unfolding to_delete_set by blast
  qed
  then have "filter (\<lambda>m. m_id m \<notin> ?ids) (migrations w) = filter (\<lambda>m. \<not> ?del m) (migrations w)"
    by (intro filter_cong) auto
  with a show "migrations (cleanupEmptyMigrations (Some uid) e w) =
                 filter (\<lambda>m. \<not> ?del m) (migrations w)"
    by (simp add: cleanup_migrations_ok)
next
  fix m
  assume m: "m \<in> set (migrations w)"
    and f: "\<exists>f\<in>set (migration_files w). mf_migration_id f = m_id m"
  let ?ids = "set (map fst (filter (\<lambda>m. length (snd m) = 0)
                 (old_rows user (now e - 86400000) w)))"
  have "m_id m \<notin> ?ids"
    using f to_delete_no_files[of "m_id m" user "now e - 86400000" w] by blast
  with m cleanup_migrations[of user e w]
  show "m \<in> set (migrations (cleanupEmptyMigrations user e w))" by auto
next
  show "migration_files (cleanupEmptyMigrations user e w) = migration_files w"
    by (rule cleanup_files)
qed

text \<open>
  For user \<open>u1\<close> only the old empty session \<open>m2\<close> goes: \<open>m1\<close> is recent, \<open>m4\<close> has a
  file, \<open>m3\<close> and \<open>m5\<close> belong to another user.
\<close>

theorem cleanupEmptyMigrations_exact_witness:
  "map m_id (migrations (cleanupEmptyMigrations (Some ''u1'') example_env example_world)) =
     [''m1'', ''m3'', ''m4'', ''m5''] \<and>
   migration_files (cleanupEmptyMigrations (Some ''u1'') example_env example_world) =
     migration_files example_world"
proof -
  have h: "select_old example_env = Succeeds \<and> delete_old example_env = Succeeds \<and>
           distinct (map m_id (migrations example_world))"
    by (simp add: example_env_def example_world_def)
  note t = cleanupEmptyMigrations_exact[of example_env example_world "''u1''" "Some ''u1''"]
  note a = t[THEN conjunct1, THEN mp, OF h]
  note c = t[THEN conjunct2, THEN conjunct2]
  have "map m_id (filter (\<lambda>m. \<not> (m_user_id m = ''u1'' \<and> m_created_at m < now example_env - 86400000 \<and>
                         (\<forall>f\<in>set (migration_files example_world). mf_migration_id f \<noteq> m_id m)))
          (migrations example_world)) = [''m1'', ''m3'', ''m4'', ''m5'']"
    by (simp add: example_world_def example_env_def example_row_def)
  with a c show ?thesis by simp
qed

subsection \<open>getMigrationStats\<close>

lemma count_by_status:
  assumes "\<forall>s\<in>set xs. s = a \<or> s = b \<or> s = c \<or> s = d" and "distinct [a, b, c, d]"
  shows "length xs = length (filter (\<lambda>f. f = a) xs) + length (filter (\<lambda>f. f = b) xs) +
           length (filter (\<lambda>f. f = c) xs) + length (filter (\<lambda>f. f = d) xs)"
  using assms by (induction xs) auto

text \<open>
  C10. When the query is answered, \<open>getMigrationStats\<close> returns a summary, not null; its
  total is the number of file rows of the session; when every status of these rows is one
  of \<^verbatim>\<open>pending\<close>, \<^verbatim>\<open>success\<close>, \<^verbatim>\<open>failed\<close>, \<^verbatim>\<open>deployed\<close>, the total is the sum of
  the four counts; and for a session without file rows the summary is zero throughout.
\<close>

theorem getMigrationStats_total:
  assumes "select_statuses e = Succeeds"
  shows "\<exists>s. fst (getMigrationStats mid e w) = Some s \<and>
           total s = length (filter (\<lambda>f. mf_migration_id f = mid) (migration_files w)) \<and>
           ((\<forall>f\<in>set (migration_files w). mf_migration_id f = mid \<longrightarrow>
                conversion_status f = ''pending'' \<or> conversion_status f = ''success'' \<or>
                conversion_status f = ''failed'' \<or> conversion_status f = ''deployed'') \<longrightarrow>
            total s = success s + failed s + pending s + deployed s) \<and>
           ((\<forall>f\<in>set (migration_files w). mf_migration_id f \<noteq> mid) \<longrightarrow>
            s = \<lparr>total = 0, success = 0, failed = 0, pending = 0, deployed = 0\<rparr>)"
proof -
  let ?rows = "session_statuses mid w"
  let ?s = "summary (Some ?rows)"
  have r: "fst (getMigrationStats mid e w) = Some ?s"
    using assms by (simp add: getMigrationStats_def Let_def session_statuses_def send_def)
  have t: "total ?s = length (filter (\<lambda>f. mf_migration_id f = mid) (migration_files w))"
    by (simp add: summary_def session_statuses_def Let_def)
  have sum: "total ?s = success ?s + failed ?s + pending ?s + deployed ?s"
    if "\<forall>f\<in>set (migration_files w). mf_migration_id f = mid \<longrightarrow>
          conversion_status f = ''pending'' \<or> conversion_status f = ''success'' \<or>
          conversion_status f = ''failed'' \<or> conversion_status f = ''deployed''"
  proof -
    from that have "\<forall>s\<in>set ?rows. s = ''success'' \<or> s = ''failed'' \<or> s = ''pending'' \<or>
                      s = ''deployed''"
      by (auto simp: session_statuses_def)
    then have "length ?rows =
        length (filter (\<lambda>f. f = ''success'') ?rows) + length (filter (\<lambda>f. f = ''failed'') ?rows) +
        length (filter (\<lambda>f. f = ''pending'') ?rows) + length (filter (\<lambda>f. f = ''deployed'') ?rows)"
      by (rule count_by_status) simp
    then show ?thesis by (simp add: summary_def Let_def)
  qed
  have z: "?s = \<lparr>total = 0, success = 0, failed = 0, pending = 0, deployed = 0\<rparr>"
    if "\<forall>f\<in>set (migration_files w). mf_migration_id f \<noteq> mid"
  proof -
    from that have "?rows = []" by (auto simp: session_statuses_def filter_empty_conv)
    then show ?thesis by (simp add: summary_def)
  qed
  from r t sum z show ?thesis by blast
qed

theorem getMigrationStats_total_witness:
  "select_statuses example_env = Succeeds \<and>
   fst (getMigrationStats ''m1'' example_env example_world) =
     Some \<lparr>total = 2, success = 1, failed = 0, pending = 1, deployed = 0\<rparr> \<and>
   fst (getMigrationStats ''m2'' example_env example_world) =
     Some \<lparr>total = 0, success = 0, failed = 0, pending = 0, deployed = 0\<rparr>"
proof -
  have h: "select_statuses example_env = Succeeds" by (simp add: example_env_def)
  from getMigrationStats_total[OF h, of "''m2''" example_world]
  obtain s where s: "fst (getMigrationStats ''m2'' example_env example_world) = Some s"
    and z: "(\<forall>f\<in>set (migration_files example_world). mf_migration_id f \<noteq> ''m2'') \<longrightarrow>
            s = \<lparr>total = 0, success = 0, failed = 0, pending = 0, deployed = 0\<rparr>"
    by blast
  have "\<forall>f\<in>set (migration_files example_world). mf_migration_id f \<noteq> ''m2''"
    by (simp add: example_world_def example_row_def)
  with s z have r2: "fst (getMigrationStats ''m2'' example_env example_world) =
     Some \<lparr>total = 0, success = 0, failed = 0, pending = 0, deployed = 0\<rparr>"
    by simp
  have r1: "fst (getMigrationStats ''m1'' example_env example_world) =
     Some \<lparr>total = 2, success = 1, failed = 0, pending = 1, deployed = 0\<rparr>"
    by (simp add: getMigrationStats_def summary_def session_statuses_def example_env_def
          example_world_def example_row_def Let_def send_def)
  from h r1 r2 show ?thesis by simp
qed

section \<open>Properties of the dashboard controller\<close>

text \<open>
  C9. After a manual edit with a file selected, the selected file is the old selection
  with the new converted content, every entry of the file list that has the id of the
  selection is that same object, so its converted content is that of the selection, and
  the list holds the same ids in the same order as before.
\<close>

theorem handleManualEdit_lockstep:
  assumes "selectedFile d = Some sel"
  shows "selectedFile (handleManualEdit newContent d) =
           Some (sel\<lparr>convertedContent := Some newContent\<rparr>) \<and>
         (\<forall>f\<in>set (files (handleManualEdit newContent d)).
            fid f = fid sel \<longrightarrow>
            f = sel\<lparr>convertedContent := Some newContent\<rparr> \<and>
            Some (convertedContent f) =
              map_option convertedContent (selectedFile (handleManualEdit newContent d))) \<and>
         map fid (files (handleManualEdit newContent d)) = map fid (files d)"
  using assms by (auto simp: handleManualEdit_def Let_def)

theorem handleManualEdit_lockstep_witness:
  "selectedFile example_dashboard = Some (example_file ''a'' ''orders.sql'') \<and>
   selectedFile (handleManualEdit ''select 2'' example_dashboard) =
     Some ((example_file ''a'' ''orders.sql'')\<lparr>convertedContent := Some ''select 2''\<rparr>) \<and>
   files (handleManualEdit ''select 2'' example_dashboard) =
     [(example_file ''a'' ''orders.sql'')\<lparr>convertedContent := Some ''select 2''\<rparr>,
      example_file ''b'' ''items.sql'']"
proof -
  have h: "selectedFile example_dashboard = Some (example_file ''a'' ''orders.sql'')"
    by (simp add: example_dashboard_def)
  have ev: "files (handleManualEdit ''select 2'' example_dashboard) =
     [(example_file ''a'' ''orders.sql'')\<lparr>convertedContent := Some ''select 2''\<rparr>,
      example_file ''b'' ''items.sql'']"
    by (simp add: handleManualEdit_def example_dashboard_def example_file_def Let_def)
  from handleManualEdit_lockstep[OF h, of "''select 2''"] h ev show ?thesis by simp
qed

lemma handleResetMigration_reuses_current:
  assumes "mid \<noteq> []"
  shows "migrations (snd (handleResetMigration (Some mid) (Some uid) e (d, w))) = migrations w \<and>
         currentMigrationId (snd (handleResetMigration (Some mid) (Some uid) e (d, w))) =
           currentMigrationId w"
  using assms
  by (cases "select_existing e")
     (simp_all add: handleResetMigration_def handleCodeUpload_def getOrCreateMigrationId_def
        truthy_def Let_def send_def show_toast_def)

text \<open>
  C8. The reset action empties the file list and the conversion results, clears the
  selected file and the report and shows the upload tab. Its call of \<open>handleCodeUpload\<close>
  with the empty list goes through \<open>getOrCreateMigrationId\<close>, which returns the current
  session id when one is held: with session \<open>m1\<close> current, as after any upload, the only
  request sent is the read of the file names of \<open>m1\<close>, no session row is inserted, and \<open>m1\<close>
  stays the current session. The source's comment at this call says it starts a new
  migration session.
\<close>

theorem handleResetMigration_keeps_session:
  "fst (handleResetMigration (Some ''m1'') (Some ''u1'') example_env
         (example_dashboard, example_world\<lparr>currentMigrationId := Some ''m1''\<rparr>)) =
     example_dashboard\<lparr>files := [], conversionResults := [], selectedFile := None,
                       report := None, activeTab := UploadTab\<rparr> \<and>
   snd (handleResetMigration (Some ''m1'') (Some ''u1'') example_env
         (example_dashboard, example_world\<lparr>currentMigrationId := Some ''m1''\<rparr>)) =
     example_world\<lparr>currentMigrationId := Some ''m1'',
                   requests := [SelectFileNames ''m1''],
                   toasts := [Toast ''Files Uploaded'' False, Toast ''Migration Reset'' False]\<rparr>"
  by code_simp

end
